theory Spec2Isabelle
  imports Complex_Main "HOL-Library.Multiset"
begin

section \<open>Report rendering of the load-test runner (src/index.js)\<close>

text \<open>
  The development embeds the report-rendering functions of \<^verbatim>\<open>src/index.js\<close>:
  \<^verbatim>\<open>generateCharts\<close>, \<^verbatim>\<open>generatePDF\<close> and \<^verbatim>\<open>generateComparisonReport\<close>.

  Conventions of the embedding.
  \<^item> A JavaScript number is a \<^typ>\<open>rat\<close>: arithmetic is exact, and \<^verbatim>\<open>NaN\<close>, the
    infinities and the rounding of IEEE doubles are outside the model.
  \<^item> A JavaScript string is a \<^typ>\<open>string\<close>, one \<^typ>\<open>char\<close> per code unit, so
    \<^verbatim>\<open>s.length\<close> is \<^term>\<open>length s\<close> and \<^verbatim>\<open>s.substring(0, n)\<close> is \<^term>\<open>take n s\<close>.
    Code units above 255 have no counterpart.
  \<^item> A JavaScript object used as a dictionary is an association list with distinct keys,
    listed in the order in which \<^verbatim>\<open>Object.keys\<close> enumerates them.
  \<^item> \<^verbatim>\<open>undefined\<close> is \<^term>\<open>None\<close>.
  \<^item> An exception is a value \<^term>\<open>Inl e\<close> of a sum type.
\<close>

subsection \<open>Payload preview (generatePDF, lines 288-297)\<close>

text \<open>
  \<^verbatim>\<open>
  let payloadText = JSON.stringify(config.payload, null, 2);
  if (payloadText.length > 500) {
    payloadText = payloadText.substring(0, 497) + "...";
  }
  doc.text(payloadText);
  \<close>
  The argument is the text that \<^verbatim>\<open>JSON.stringify\<close> returned.
\<close>

definition payloadPreview :: "string \<Rightarrow> string" where
  "payloadPreview payloadText =
     (if length payloadText > 500 then take 497 payloadText @ ''...'' else payloadText)"

text \<open>
  The payload block of the configuration section: nothing is printed for a falsy payload
  (\<^term>\<open>None\<close>); otherwise the underlined heading and the preview of the JSON text.
\<close>

definition payloadBlock :: "string option \<Rightarrow> string list" where
  "payloadBlock payload =
     (case payload of None \<Rightarrow> [] | Some payloadText \<Rightarrow> [''Payload:'', payloadPreview payloadText])"

subsection \<open>The page cursor (checkAndAddPage, lines 260-270 and 743-752)\<close>

text \<open>
  The part of the PDFKit document that the page-space check reads and writes: the cursor
  \<^verbatim>\<open>doc.y\<close>, the page height, the top and bottom margins, and the number of pages
  created so far. Both reports create the document with \<^verbatim>\<open>margin: 50, size: "A4"\<close>.
\<close>

record pdf_doc =
  doc_y :: rat
  page_height :: rat
  margins_top :: rat
  margins_bottom :: rat
  pages :: nat

text \<open>
  \<^verbatim>\<open>doc.addPage()\<close> of PDFKit, called without options: a page of the document's own size
  and margins is appended and the cursor is put at the top margin. The table code of
  \<^verbatim>\<open>generateComparisonReport\<close> relies on the same position when it continues at
  \<^verbatim>\<open>doc.page.margins.top + 30\<close> after \<^verbatim>\<open>doc.addPage()\<close> (lines 911-912).
\<close>

definition addPage :: "pdf_doc \<Rightarrow> pdf_doc" where
  "addPage doc = doc\<lparr>doc_y := margins_top doc, pages := Suc (pages doc)\<rparr>"

definition availableSpace :: "pdf_doc \<Rightarrow> rat" where
  "availableSpace doc = page_height doc - margins_bottom doc - doc_y doc"

text \<open>
  \<^verbatim>\<open>
  const checkAndAddPage = (requiredHeight) => {
    const currentY = doc.y;
    const availableSpace = doc.page.height - doc.page.margins.bottom - currentY;
    if (availableSpace < requiredHeight) { doc.addPage(); return true; }
    return false;
  };
  \<close>
  The document is mutated in place; the model returns the answer with the new document.
\<close>

definition checkAndAddPage :: "rat \<Rightarrow> pdf_doc \<Rightarrow> bool \<times> pdf_doc" where
  "checkAndAddPage requiredHeight doc =
     (if availableSpace doc < requiredHeight then (True, addPage doc) else (False, doc))"

text \<open>An A4 page of PDFKit (595.28 by 841.89 points) with margins of 50, cursor at \<open>cy\<close>.\<close>

definition a4_doc :: "rat \<Rightarrow> pdf_doc" where
  "a4_doc cy = \<lparr>doc_y = cy, page_height = 84189 / 100, margins_top = 50, margins_bottom = 50,
     pages = 1\<rparr>"

subsection \<open>JavaScript built-ins used by the report code\<close>

text \<open>
  A decimal digit, and the decimal text of a non-negative integer: what a template literal
  or a property key shows of such a number.
\<close>

definition digit_char :: "nat \<Rightarrow> char" where
  "digit_char d = ''0123456789'' ! d"

fun show_nat :: "nat \<Rightarrow> string" where
  "show_nat n =
     (if n < 10 then [digit_char n] else show_nat (n div 10) @ [digit_char (n mod 10)])"

declare show_nat.simps [simp del]

text \<open>
  \<^verbatim>\<open>parseInt(string)\<close> with no radix, after ECMA-262: white space is skipped, a sign is
  read, a \<^verbatim>\<open>0x\<close> prefix selects radix 16, and the longest prefix of digits of the radix
  is the value; with no such digit the result is \<^verbatim>\<open>NaN\<close>, here \<^term>\<open>None\<close>.
\<close>

definition isWhiteSpace :: "char \<Rightarrow> bool" where
  "isWhiteSpace c = (of_char c \<in> {9, 10, 11, 12, 13, 32, 160 :: nat})"

definition digitValue :: "char \<Rightarrow> nat option" where
  "digitValue c =
     (let n = of_char c :: nat in
      if 48 \<le> n \<and> n \<le> 57 then Some (n - 48)
      else if 97 \<le> n \<and> n \<le> 122 then Some (n - 87)
      else if 65 \<le> n \<and> n \<le> 90 then Some (n - 55)
      else None)"

definition isRadixDigit :: "nat \<Rightarrow> char \<Rightarrow> bool" where
  "isRadixDigit R c = (case digitValue c of None \<Rightarrow> False | Some d \<Rightarrow> d < R)"

definition digitsValue :: "nat \<Rightarrow> string \<Rightarrow> nat" where
  "digitsValue R z =
     foldl (\<lambda>acc c. acc * R + (case digitValue c of None \<Rightarrow> 0 | Some d \<Rightarrow> d)) 0 z"

definition parseInt :: "string \<Rightarrow> int option" where
  "parseInt string =
     (let s1 = dropWhile isWhiteSpace string;
          neg = (take 1 s1 = ''-'');
          s2 = (if take 1 s1 = ''+'' \<or> take 1 s1 = ''-'' then drop 1 s1 else s1);
          hex = (take 2 s2 = ''0x'' \<or> take 2 s2 = ''0X'');
          R = (if hex then 16 else 10);
          s3 = (if hex then drop 2 s2 else s2);
          z = takeWhile (isRadixDigit R) s3
      in if z = [] then None
         else Some ((if neg then - 1 else 1) * int (digitsValue R z)))"

text \<open>
  \<^verbatim>\<open>Array.prototype.sort(comparefn)\<close>. The sort is stable, and a comparison that yields
  \<^verbatim>\<open>NaN\<close> (\<^term>\<open>None\<close>) counts as \<open>+0\<close>. For a comparator that is a difference of
  numeric keys every stable sort returns the same array; the model computes it by
  insertion. With a comparator that yields \<^verbatim>\<open>NaN\<close> the order is left to the
  implementation by the language, and no theorem below speaks about that case.
\<close>

fun insertBy :: "('a \<Rightarrow> 'a \<Rightarrow> rat option) \<Rightarrow> 'a \<Rightarrow> 'a list \<Rightarrow> 'a list" where
  "insertBy comparefn x [] = [x]"
| "insertBy comparefn x (y # ys) =
     (if (case comparefn x y of None \<Rightarrow> True | Some v \<Rightarrow> v \<le> 0) then x # y # ys
      else y # insertBy comparefn x ys)"

definition Array_sort :: "('a \<Rightarrow> 'a \<Rightarrow> rat option) \<Rightarrow> 'a list \<Rightarrow> 'a list" where
  "Array_sort comparefn xs = foldr (insertBy comparefn) xs []"

text \<open>
  \<^verbatim>\<open>Array.prototype.slice(start, end)\<close>: a negative index counts from the end, and both
  indices are clamped to the array.
\<close>

definition slice :: "int \<Rightarrow> int \<Rightarrow> 'a list \<Rightarrow> 'a list" where
  "slice start fin xs =
     (let len = int (length xs);
          k = (if start < 0 then max (len + start) 0 else min start len);
          final = (if fin < 0 then max (len + fin) 0 else min fin len)
      in take (nat (final - k)) (drop (nat k) xs))"

text \<open>\<^verbatim>\<open>Math.round\<close>: the nearest integer, a tie going up.\<close>

definition Math_round :: "rat \<Rightarrow> int" where
  "Math_round x = \<lfloor>x + 1 / 2\<rfloor>"

text \<open>
  \<^verbatim>\<open>x.toFixed(2)\<close> for \<open>\<bar>x\<bar> < 10\<^sup>2\<^sup>1\<close> (beyond that JavaScript switches to exponent
  notation, which is not modelled): the sign, then the integer \<open>n\<close> nearest to
  \<open>100 \<sqdot> \<bar>x\<bar>\<close> (the larger one at a tie) written with two digits after the point.
\<close>

definition toFixed2 :: "rat \<Rightarrow> string" where
  "toFixed2 x =
     (let n = nat \<lfloor>\<bar>x\<bar> * 100 + 1 / 2\<rfloor> in
      (if x < 0 then ''-'' else []) @ show_nat (n div 100) @ ''.'' @
      [digit_char (n div 10 mod 10), digit_char (n mod 10)])"

definition Object_keys :: "(string \<times> 'v) list \<Rightarrow> string list" where
  "Object_keys obj = map fst obj"

definition Object_values :: "(string \<times> 'v) list \<Rightarrow> 'v list" where
  "Object_values obj = map snd obj"

subsection \<open>The measurement result\<close>

text \<open>
  The fields of autocannon's result that the report code reads. \<^verbatim>\<open>result.requests\<close> is
  always an object here, with its \<^verbatim>\<open>average\<close> and \<^verbatim>\<open>total\<close> and its other
  enumerable properties (\<open>requests_other\<close>). \<^verbatim>\<open>requestsTimeline\<close> is the per-second
  object that \<^verbatim>\<open>runTest\<close> attaches when it has at least one key.
\<close>

record measurement_result =
  latency_average :: rat
  requests_average :: rat
  requests_total :: rat
  requests_other :: "(string \<times> rat) list"
  requestsTimeline :: "(string \<times> rat) list option"
  duration :: "rat option"
  errors :: "nat option"
  statusCodeStats :: "(string \<times> nat) list option"

definition requests_object :: "measurement_result \<Rightarrow> (string \<times> rat) list" where
  "requests_object r =
     (''average'', requests_average r) # (''total'', requests_total r) # requests_other r"

text \<open>The exceptions of the language that the embedded code can raise.\<close>

datatype js_error = ReferenceError | TypeError

subsection \<open>Timeline reconstruction (generateCharts, lines 98-138)\<close>

record timeline =
  timeLabels :: "string list"
  timelineData :: "rat option list"

text \<open>The comparator \<^verbatim>\<open>(a, b) => parseInt(a) - parseInt(b)\<close>.\<close>

definition compareKeys :: "string \<Rightarrow> string \<Rightarrow> rat option" where
  "compareKeys a b =
     (case (parseInt a, parseInt b) of
        (Some x, Some y) \<Rightarrow> Some (of_int (x - y))
      | _ \<Rightarrow> None)"

text \<open>
  \<^verbatim>\<open>
  timeKeys.forEach((key) => {
    timelineData.push(obj[key]);
    timeLabels.push(`${key}s`);
  });
  \<close>
\<close>

definition pushKeys :: "(string \<times> rat) list \<Rightarrow> string list \<Rightarrow> timeline" where
  "pushKeys obj timeKeys =
     \<lparr>timeLabels = map (\<lambda>key. key @ ''s'') timeKeys,
      timelineData = map (\<lambda>key. map_of obj key) timeKeys\<rparr>"

text \<open>The second strategy (lines 116-129): the numeric keys of \<^verbatim>\<open>result.requests\<close>.\<close>

definition standardTimeline :: "measurement_result \<Rightarrow> timeline" where
  "standardTimeline r =
     (let timeKeys =
            Array_sort compareKeys
              (filter (\<lambda>key. parseInt key \<noteq> None) (Object_keys (requests_object r)))
      in if length timeKeys > 0 then pushKeys (requests_object r) timeKeys
         else \<lparr>timeLabels = [], timelineData = []\<rparr>)"

text \<open>The first two strategies (lines 102-129).\<close>

definition sampledTimeline :: "measurement_result \<Rightarrow> timeline" where
  "sampledTimeline r =
     (case requestsTimeline r of
        Some obj \<Rightarrow>
          if length (Object_keys obj) > 0
          then pushKeys obj (Array_sort compareKeys (Object_keys obj))
          else standardTimeline r
      | None \<Rightarrow> standardTimeline r)"

text \<open>
  \<^verbatim>\<open>const duration = result.duration || config.duration || 30;\<close> (line 133).
  \<^verbatim>\<open>generateCharts(result)\<close> has no parameter or local named \<^verbatim>\<open>config\<close>, and the module
  declares none (\<^verbatim>\<open>config\<close> is a local of \<^verbatim>\<open>runTests\<close> and a parameter of
  \<^verbatim>\<open>generatePDF\<close> and \<^verbatim>\<open>runTest\<close>). So when \<^verbatim>\<open>result.duration\<close> is falsy, evaluating
  \<^verbatim>\<open>config.duration\<close> raises a ReferenceError, and the default 30 is never reached.
\<close>

definition fallbackDuration :: "measurement_result \<Rightarrow> js_error + rat" where
  "fallbackDuration r =
     (case duration r of
        Some d \<Rightarrow> if d \<noteq> 0 then Inr d else Inl ReferenceError
      | None \<Rightarrow> Inl ReferenceError)"

text \<open>
  \<^verbatim>\<open>
  for (let i = 1; i <= duration; i++) {
    timelineData.push(result.requests.average);
    timeLabels.push(`${i}s`);
  }
  \<close>
\<close>

definition fallbackTimeline :: "measurement_result \<Rightarrow> rat \<Rightarrow> timeline" where
  "fallbackTimeline r d =
     \<lparr>timeLabels = map (\<lambda>i. show_nat (nat i) @ ''s'') [1..\<lfloor>d\<rfloor>],
      timelineData = map (\<lambda>i. Some (requests_average r)) [1..\<lfloor>d\<rfloor>]\<rparr>"

text \<open>
  The timeline part of \<^verbatim>\<open>generateCharts\<close> as a whole (lines 98-138): the two arrays
  \<^verbatim>\<open>timeLabels\<close> and \<^verbatim>\<open>timelineData\<close> that the requests chart is drawn from, or the
  exception that ends the call. The fallback runs when \<^verbatim>\<open>timelineData.length === 0\<close>.
\<close>

definition reconstructTimeline :: "measurement_result \<Rightarrow> js_error + timeline" where
  "reconstructTimeline r =
     (let t = sampledTimeline r in
      if length (timelineData t) = 0 then
        (case fallbackDuration r of
           Inl e \<Rightarrow> Inl e
         | Inr d \<Rightarrow> Inr (fallbackTimeline r d))
      else Inr t)"

subsection \<open>Status codes (generateCharts, lines 182-214; generatePDF, lines 327-341 and 393-404)\<close>

record pie_chart =
  pie_labels :: "string list"
  pie_data :: "nat list"

definition statusCodesChart :: "measurement_result \<Rightarrow> pie_chart option" where
  "statusCodesChart r =
     (case statusCodeStats r of
        Some stats \<Rightarrow>
          if length (Object_keys stats) > 0
          then Some \<lparr>pie_labels = Object_keys stats, pie_data = Object_values stats\<rparr>
          else None
      | None \<Rightarrow> None)"

text \<open>
  The charts placed in the results summary: \<^verbatim>\<open>charts.statusCodes\<close> exists exactly when
  \<^verbatim>\<open>statusCodesChart\<close> is not null, and only then is the third image placed.
\<close>

datatype chart_image = LatencyImage | RequestsImage | StatusCodesImage pie_chart

definition summaryImages :: "measurement_result \<Rightarrow> chart_image list" where
  "summaryImages r =
     [LatencyImage, RequestsImage] @
     (case statusCodesChart r of None \<Rightarrow> [] | Some c \<Rightarrow> [StatusCodesImage c])"

text \<open>
  \<^verbatim>\<open>
  doc.fontSize(14).text("Errors and Status Codes:");
  doc.text(`Errors: ${result.errors || 0}`);
  if (result.statusCodeStats) {
    doc.text("Status Codes:");
    Object.entries(result.statusCodeStats).forEach(([code, count]) => {
      doc.text(`  ${code}: ${count}`);
    });
  }
  \<close>
  The lines of text of the section, in order.
\<close>

definition errorsSection :: "measurement_result \<Rightarrow> string list" where
  "errorsSection r =
     [''Errors and Status Codes:'',
      ''Errors: '' @ show_nat (case errors r of None \<Rightarrow> 0 | Some e \<Rightarrow> e)] @
     (case statusCodeStats r of
        None \<Rightarrow> []
      | Some stats \<Rightarrow>
          ''Status Codes:'' #
          map (\<lambda>(code, count). ''  '' @ code @ '': '' @ show_nat count) stats)"

subsection \<open>Colour gradient (generateComparisonReport, lines 594-617)\<close>

text \<open>
  A colour \<^verbatim>\<open>rgba(r, g, b, a)\<close>, kept as its four components instead of the text of the
  template literal. The three channels are integers, so the first \<^verbatim>\<open>0.6\<close> in the text
  is the opacity, which is what \<^verbatim>\<open>color.replace("0.6", "1")\<close> rewrites.
\<close>

datatype rgba = Rgba (red: int) (green: int) (blue: int) (alpha: rat)

text \<open>
  The body of the loop of \<^verbatim>\<open>generateColorGradient\<close> at index \<open>i\<close>, for \<open>cnt\<close> colours
  (the source's \<^verbatim>\<open>count\<close>). The divisor is \<^verbatim>\<open>count - 1 || 1\<close>.
\<close>

definition gradientColor :: "nat \<Rightarrow> nat \<Rightarrow> rgba" where
  "gradientColor cnt i =
     (let ratio = of_nat i / (if int cnt - 1 = 0 then 1 else of_int (int cnt - 1)) in
      if ratio < 1 / 2 then
        (let greenValue = 75 + (255 - 75) * (ratio * 2)
         in Rgba 75 (Math_round greenValue) 192 (6 / 10))
      else
        (let greenValue = 255 - 255 * ((ratio - 1 / 2) * 2)
         in Rgba 255 (Math_round greenValue) (Math_round (greenValue * (1 / 2))) (6 / 10)))"

definition generateColorGradient :: "nat \<Rightarrow> rgba list" where
  "generateColorGradient cnt = map (gradientColor cnt) [0..<cnt]"

definition borderColorOf :: "rgba \<Rightarrow> rgba" where
  "borderColorOf color = Rgba (red color) (green color) (blue color) 1"

subsection \<open>Comparison report (generateComparisonReport, lines 570-983)\<close>

text \<open>An entry \<^verbatim>\<open>{ name, result }\<close> of the array \<^verbatim>\<open>testResults\<close> of \<^verbatim>\<open>runTests\<close>.\<close>

record test_result =
  name :: string
  result :: measurement_result

text \<open>
  The data of a horizontal bar chart: \<^verbatim>\<open>data.labels\<close> and, of its one dataset,
  \<^verbatim>\<open>data\<close>, \<^verbatim>\<open>backgroundColor\<close> and \<^verbatim>\<open>borderColor\<close>.
\<close>

record bar_chart =
  labels :: "string list"
  data :: "rat list"
  backgroundColor :: "rgba list"
  borderColor :: "rgba list"

text \<open>
  \<^verbatim>\<open>
  const getShortenedName = (name, maxLength = 15) =>
    name.length > maxLength ? name.substring(0, maxLength - 3) + "..." : name;
  \<close>
\<close>

definition getShortenedName :: "string \<Rightarrow> nat \<Rightarrow> string" where
  "getShortenedName nm maxLength =
     (if length nm > maxLength then take (maxLength - 3) nm @ ''...'' else nm)"

text \<open>
  The comparators \<^verbatim>\<open>(a, b) => a.result.latency.average - b.result.latency.average\<close> and
  \<^verbatim>\<open>(a, b) => b.result.requests.average - a.result.requests.average\<close>.
\<close>

definition compareLatency :: "test_result \<Rightarrow> test_result \<Rightarrow> rat option" where
  "compareLatency a b = Some (latency_average (result a) - latency_average (result b))"

definition compareThroughput :: "test_result \<Rightarrow> test_result \<Rightarrow> rat option" where
  "compareThroughput a b = Some (requests_average (result b) - requests_average (result a))"

text \<open>
  \<^verbatim>\<open>
  const maxTests = Math.min(testResults.length, Math.floor(remainingWidth / 70));
  const batches = [];
  for (let i = 0; i < testResults.length; i += maxTests) {
    batches.push(testResults.slice(i, i + maxTests));
  }
  \<close>
  The loop does not end when \<^verbatim>\<open>maxTests\<close> is not positive; \<^term>\<open>None\<close> is that outcome.
\<close>

definition maxTestsOf :: "nat \<Rightarrow> rat \<Rightarrow> int" where
  "maxTestsOf len remainingWidth = min (int len) \<lfloor>remainingWidth / 70\<rfloor>"

partial_function (option) batchLoop ::
  "int \<Rightarrow> int \<Rightarrow> 'a list \<Rightarrow> 'a list list \<Rightarrow> 'a list list option" where
  "batchLoop maxTests i testResults batches =
     (if i < int (length testResults)
      then batchLoop maxTests (i + maxTests) testResults
             (batches @ [slice i (i + maxTests) testResults])
      else Some batches)"

definition tableBatches :: "rat \<Rightarrow> 'a list \<Rightarrow> 'a list list option" where
  "tableBatches remainingWidth testResults =
     batchLoop (maxTestsOf (length testResults) remainingWidth) 0 testResults []"

text \<open>
  The width left for the scenario columns on the A4 page of the report (595.28 wide,
  margins of 50): \<^verbatim>\<open>pageWidth - Math.min(150, pageWidth * 0.3)\<close>.
\<close>

definition a4_remainingWidth :: rat where
  "a4_remainingWidth =
     (let pageWidth = 59528 / 100 - (50 + 50);
          metricColWidth = min 150 (pageWidth * (3 / 10))
      in pageWidth - metricColWidth)"

text \<open>
  What the comparison report is built from: the two chart specifications, the two lines
  of the performance summary, and the batches of the detail table.
\<close>

record comparison_report =
  latencyCompChart :: bar_chart
  reqCompChart :: bar_chart
  bestLatency :: string
  bestThroughput :: string
  batches :: "test_result list list option"

text \<open>
  \<^verbatim>\<open>generateComparisonReport(testResults, outputDir)\<close>. \<^verbatim>\<open>testResults.sort(...)\<close> sorts the
  caller's array in place, so the model returns the array as the call leaves it, together
  with the report; \<^term>\<open>None\<close> is the early return for at most one result.
  \<^verbatim>\<open>sortedByThroughput\<close> is a sorted copy, \<^verbatim>\<open>[...testResults].sort(...)\<close>. After the
  length test the array is not empty, so \<^verbatim>\<open>testResults[0]\<close> is its head.
\<close>

definition generateComparisonReport ::
  "test_result list \<Rightarrow> test_result list \<times> comparison_report option" where
  "generateComparisonReport testResults0 =
     (if length testResults0 \<le> 1 then (testResults0, None)
      else
        (let testResults = Array_sort compareLatency testResults0;
             bgColors = generateColorGradient (length testResults);
             borderColors = map borderColorOf bgColors;
             sortedByThroughput = Array_sort compareThroughput testResults
         in (testResults,
             Some
               \<lparr>latencyCompChart =
                  \<lparr>labels = map name testResults,
                   data = map (\<lambda>test. latency_average (result test)) testResults,
                   backgroundColor = bgColors,
                   borderColor = borderColors\<rparr>,
                reqCompChart =
                  \<lparr>labels = map name sortedByThroughput,
                   data = map (\<lambda>test. requests_average (result test)) sortedByThroughput,
                   backgroundColor = rev (generateColorGradient (length testResults)),
                   borderColor = rev borderColors\<rparr>,
                bestLatency =
                  ''Best Latency: '' @ getShortenedName (name (hd testResults)) 25 @ '' ('' @
                  toFixed2 (latency_average (result (hd testResults))) @ '' ms)'',
                bestThroughput =
                  ''Best Throughput: '' @ getShortenedName (name (hd sortedByThroughput)) 25 @
                  '' ('' @ toFixed2 (requests_average (result (hd sortedByThroughput))) @
                  '' req/sec)'',
                batches = tableBatches a4_remainingWidth testResults\<rparr>)))"

text \<open>
  The array \<^verbatim>\<open>testResults\<close> of \<^verbatim>\<open>runTests\<close> after the comparison pass (lines 547-550):
  \<^verbatim>\<open>if (testResults.length > 1) await generateComparisonReport(testResults, outputDir);\<close>
\<close>

definition testResultsAfterComparison :: "test_result list \<Rightarrow> test_result list" where
  "testResultsAfterComparison testResults =
     (if length testResults > 1 then fst (generateComparisonReport testResults)
      else testResults)"

text \<open>
  A measurement result with the given average latency and average requests per second
  and nothing else, and the two scenarios of the end-to-end example of the specification.
\<close>

definition plain_result :: "rat \<Rightarrow> rat \<Rightarrow> measurement_result" where
  "plain_result lat rps =
     \<lparr>latency_average = lat, requests_average = rps, requests_total = 0,
      requests_other = [], requestsTimeline = None, duration = None, errors = None,
      statusCodeStats = None\<rparr>"

definition scenario_A :: test_result where
  "scenario_A = \<lparr>name = ''A'', result = plain_result 10 500\<rparr>"

definition scenario_B :: test_result where
  "scenario_B = \<lparr>name = ''B'', result = plain_result 20 300\<rparr>"



text \<open>
  Closeness to green: the squared distance of the three channels from pure green
  \<^verbatim>\<open>rgb(0, 255, 0)\<close>. A colour is closer to green than another when its distance is
  smaller, its green channel larger and its red channel smaller.
\<close>

definition greenDistance :: "rgba \<Rightarrow> int" where
  "greenDistance c = (red c)\<^sup>2 + (255 - green c)\<^sup>2 + (blue c)\<^sup>2"

definition closerToGreen :: "rgba \<Rightarrow> rgba \<Rightarrow> bool" where
  "closerToGreen c d =
     (greenDistance c < greenDistance d \<and> green c > green d \<and> red c < red d)"

subsection \<open>Auxiliary notions for the statements\<close>



section \<open>Theorems\<close>

subsection \<open>Floors of rational numerals\<close>

text \<open>The simplifier evaluates the floor of a quotient of numerals with these.\<close>

lemma floor_rat_numeral [simp]:
  "\<lfloor>numeral a / numeral b :: rat\<rfloor> = numeral a div numeral b"
  using floor_divide_of_int_eq [of "numeral a" "numeral b", where ?'a = rat] by simp

lemma floor_rat_one_numeral [simp]:
  "\<lfloor>1 / numeral b :: rat\<rfloor> = 1 div numeral b"
  using floor_divide_of_int_eq [of 1 "numeral b", where ?'a = rat] by simp

subsection \<open>Payload preview\<close>



subsection \<open>Page-space check\<close>

text \<open>
  Claim C5, as the code has it. The check answers true exactly when the space left above
  the bottom margin is less than the required height; then it has started a new page, and
  otherwise the document is unchanged. On the new page the space left is the page height
  minus the bottom margin minus the top margin.
\<close>

theorem checkAndAddPage_spec:
  "fst (checkAndAddPage h doc) = (page_height doc - margins_bottom doc - doc_y doc < h) \<and>
   snd (checkAndAddPage h doc) = (if fst (checkAndAddPage h doc) then addPage doc else doc) \<and>
   pages (addPage doc) = Suc (pages doc) \<and>
   availableSpace (addPage doc) = page_height doc - margins_bottom doc - margins_top doc"
  by (simp add: checkAndAddPage_def availableSpace_def addPage_def)

text \<open>
  Claim C5, as stated, fails: on an A4 page with margins of 50 and the cursor at 700, a
  check for 300 units starts a new page, on which 741.89 units are left, not the page
  height minus the top margin (791.89).
\<close>

theorem checkAndAddPage_remaining_counterexample:
  "fst (checkAndAddPage 300 (a4_doc 700)) \<and>
   availableSpace (snd (checkAndAddPage 300 (a4_doc 700))) = 74189 / 100 \<and>
   availableSpace (snd (checkAndAddPage 300 (a4_doc 700)))
     \<noteq> page_height (a4_doc 700) - margins_top (a4_doc 700)"
  by (simp add: checkAndAddPage_def availableSpace_def addPage_def a4_doc_def)

subsection \<open>Colour gradient\<close>








subsection \<open>Sorting with a difference comparator\<close>

text \<open>
  With a comparator that is the difference of a numeric key, the insertion sort is the
  stable sort by that key.
\<close>

lemma insertBy_difference:
  "insertBy (\<lambda>a b. Some (f a - f b)) x ys = insort_key f x ys"
  by (induction ys) simp_all

lemma Array_sort_difference:
  "Array_sort (\<lambda>a b. Some (f a - f b)) xs = sort_key f xs"
proof -
  have "insertBy (\<lambda>a b. Some (f a - f b)) = insort_key f"
    by (intro ext) (rule insertBy_difference)
  then show ?thesis by (simp add: Array_sort_def sort_key_def)
qed

lemma Array_sort_compareLatency:
  "Array_sort compareLatency ts = sort_key (\<lambda>t. latency_average (result t)) ts"
  using Array_sort_difference [of "\<lambda>t. latency_average (result t)" ts]
  by (simp add: compareLatency_def [abs_def])



lemma sort_key_fixed_iff:
  "(sort_key f xs = xs) = sorted (map f xs)"
proof
  assume "sort_key f xs = xs"
  then have "map f xs = map f (sort_key f xs)" by simp
  then show "sorted (map f xs)" by (simp only: sorted_sort_key)
next
  assume "sorted (map f xs)"
  then show "sort_key f xs = xs" by (rule sort_key_id_if_sorted)
qed

subsection \<open>Comparison report: orderings, callouts and colours\<close>

lemma generateComparisonReport_ranked:
  "2 \<le> length ts \<Longrightarrow>
     fst (generateComparisonReport ts) = sort_key (\<lambda>t. latency_average (result t)) ts"
  by (simp add: generateComparisonReport_def Let_def Array_sort_compareLatency)

text \<open>
  Claim C10. For at least two results the comparison report leaves the caller's array
  sorted by ascending average latency: the array of \<^verbatim>\<open>runTests\<close> after the comparison
  pass is the stable sort of the array before it. It holds the same entries as before
  (none is changed, added or dropped), and it differs from the execution order exactly
  when the execution order was not already ascending in latency.
\<close>

theorem comparison_sorts_in_place:
  "2 \<le> length ts \<Longrightarrow>
     testResultsAfterComparison ts = fst (generateComparisonReport ts) \<and>
     sorted (map (\<lambda>t. latency_average (result t)) (testResultsAfterComparison ts)) \<and>
     mset (testResultsAfterComparison ts) = mset ts \<and>
     (testResultsAfterComparison ts = ts) = sorted (map (\<lambda>t. latency_average (result t)) ts)"
  by (simp add: testResultsAfterComparison_def generateComparisonReport_ranked sort_key_fixed_iff)

theorem comparison_sorts_in_place_witness:
  "testResultsAfterComparison [scenario_B, scenario_A] = [scenario_A, scenario_B] \<and>
   testResultsAfterComparison [scenario_B, scenario_A] \<noteq> [scenario_B, scenario_A] \<and>
   mset (testResultsAfterComparison [scenario_B, scenario_A]) = mset [scenario_B, scenario_A]"
proof -
  have len: "2 \<le> length [scenario_B, scenario_A]" by simp
  have ev: "fst (generateComparisonReport [scenario_B, scenario_A]) = [scenario_A, scenario_B]"
    by (simp add: generateComparisonReport_def Let_def Array_sort_def compareLatency_def
        scenario_A_def scenario_B_def plain_result_def)
  have ne: "[scenario_A, scenario_B] \<noteq> [scenario_B, scenario_A]"
    by (simp add: scenario_A_def scenario_B_def)
  from comparison_sorts_in_place [OF len] ev ne show ?thesis by simp
qed





text \<open>
  Claim C3 at the scenarios A (10 ms, 500 req/sec) and B (20 ms, 300 req/sec). Both
  charts list A first. The latency chart colours position 0 with the first gradient
  colour, but the throughput chart reverses the gradient: the best-throughput scenario A
  gets \<open>rgba(255, 0, 0, 0.6)\<close>, the worst B gets \<open>rgba(75, 75, 192, 0.6)\<close>, and so the
  colour of the worst is the one closer to green.
\<close>

theorem throughput_chart_colours_reversed:
  "\<exists>rep. snd (generateComparisonReport [scenario_A, scenario_B]) = Some rep \<and>
     labels (latencyCompChart rep) = [''A'', ''B''] \<and>
     backgroundColor (latencyCompChart rep) = [Rgba 75 75 192 (6 / 10), Rgba 255 0 0 (6 / 10)] \<and>
     labels (reqCompChart rep) = [''A'', ''B''] \<and>
     data (reqCompChart rep) = [500, 300] \<and>
     backgroundColor (reqCompChart rep) = [Rgba 255 0 0 (6 / 10), Rgba 75 75 192 (6 / 10)] \<and>
     borderColor (reqCompChart rep) = [Rgba 255 0 0 1, Rgba 75 75 192 1] \<and>
     closerToGreen (backgroundColor (reqCompChart rep) ! 1) (backgroundColor (reqCompChart rep) ! 0)"
  by (simp add: generateComparisonReport_def Let_def Array_sort_def compareLatency_def
      compareThroughput_def scenario_A_def scenario_B_def plain_result_def
      generateColorGradient_def gradientColor_def Math_round_def upt_conv_Cons
      borderColorOf_def closerToGreen_def greenDistance_def)

subsection \<open>Table batches\<close>

lemma slice_nonneg:
  assumes "0 \<le> i" "0 \<le> j"
  shows "slice i j xs = take (nat j - nat i) (drop (nat i) xs)"
proof (cases "i < int (length xs)")
  case True
  with assms have k: "(if i < 0 then max (int (length xs) + i) 0 else min i (int (length xs))) = i"
    by simp
  from assms have f: "(if j < 0 then max (int (length xs) + j) 0 else min j (int (length xs)))
      = min j (int (length xs))" by simp
  have "take (nat (min j (int (length xs)) - i)) (drop (nat i) xs)
      = take (nat j - nat i) (drop (nat i) xs)"
  proof (cases "j \<le> int (length xs)")
    case True
    then show ?thesis using assms by (simp add: min_def nat_diff_distrib')
  next
    case False
    then have "min j (int (length xs)) = int (length xs)" by simp
    moreover from False assms have "length (drop (nat i) xs) \<le> nat j - nat i" by (simp, linarith?)
    moreover have "length (drop (nat i) xs) \<le> nat (int (length xs) - i)" using assms by (simp, linarith?)
    ultimately show ?thesis by simp
  qed
  then show ?thesis by (simp only: slice_def Let_def k f)
next
  case False
  with assms have "drop (nat i) xs = []" by simp
  moreover from False assms
  have "(if i < 0 then max (int (length xs) + i) 0 else min i (int (length xs))) = int (length xs)"
    by simp
  ultimately show ?thesis by (simp add: slice_def Let_def)
qed

text \<open>
  The loop from index \<open>i\<close> with a positive step: it ends, and what it appends to the
  batches are the consecutive slices of the rest of the array.
\<close>

lemma batchLoop_invariant:
  assumes m: "0 < m"
  shows "0 \<le> i \<Longrightarrow>
    \<exists>bs. batchLoop m i xs acc = Some (acc @ bs) \<and>
      concat bs = drop (nat i) xs \<and>
      (\<forall>k<length bs. bs ! k = take (nat m) (drop (nat i + k * nat m) xs) \<and>
                      nat i + k * nat m < length xs) \<and>
      int (length bs) = (if i < int (length xs) then (int (length xs) - i + m - 1) div m else 0)"
proof (induction "nat (int (length xs) - i)" arbitrary: i acc rule: less_induct)
  case less
  show ?case
  proof (cases "i < int (length xs)")
    case False
    then have "batchLoop m i xs acc = Some (acc @ [])"
      by (subst batchLoop.simps) simp
    moreover from False less.prems have "drop (nat i) xs = []" by simp
    ultimately show ?thesis using False by (intro exI [of _ "[]"]) simp
  next
    case True
    define s where "s = slice i (i + m) xs"
    have s_eq: "s = take (nat m) (drop (nat i) xs)"
      using less.prems m by (simp add: s_def slice_nonneg nat_add_distrib)
    have step: "batchLoop m i xs acc = batchLoop m (i + m) xs (acc @ [s])"
      using True by (subst batchLoop.simps) (simp add: s_def)
    have "nat (int (length xs) - (i + m)) < nat (int (length xs) - i)"
      using True m by simp
    moreover have "0 \<le> i + m" using less.prems m by simp
    ultimately obtain bs where
      run: "batchLoop m (i + m) xs (acc @ [s]) = Some ((acc @ [s]) @ bs)" and
      cat: "concat bs = drop (nat (i + m)) xs" and
      nth: "\<forall>k<length bs. bs ! k = take (nat m) (drop (nat (i + m) + k * nat m) xs) \<and>
                      nat (i + m) + k * nat m < length xs" and
      len: "int (length bs) =
        (if i + m < int (length xs) then (int (length xs) - (i + m) + m - 1) div m else 0)"
      using less.hyps [of "i + m" "acc @ [s]"] by blast
    have im: "nat (i + m) = nat i + nat m"
      using less.prems m by (simp add: nat_add_distrib)
    have 1: "batchLoop m i xs acc = Some (acc @ (s # bs))"
      using step run by simp
    have 2: "concat (s # bs) = drop (nat i) xs"
      using cat by (simp add: s_eq im add.commute [of "nat i" "nat m"] flip: drop_drop)
    have 3: "\<forall>k<length (s # bs). (s # bs) ! k = take (nat m) (drop (nat i + k * nat m) xs) \<and>
                      nat i + k * nat m < length xs"
    proof (intro allI impI)
      fix k assume k: "k < length (s # bs)"
      show "(s # bs) ! k = take (nat m) (drop (nat i + k * nat m) xs) \<and>
                      nat i + k * nat m < length xs"
      proof (cases k)
        case 0
        then show ?thesis using True less.prems by (simp add: s_eq)
      next
        case (Suc k')
        with k have "k' < length bs" by simp
        with nth have "bs ! k' = take (nat m) (drop (nat (i + m) + k' * nat m) xs) \<and>
                      nat (i + m) + k' * nat m < length xs" by blast
        then show ?thesis using Suc by (simp add: im add.assoc)
      qed
    qed
    have 4: "int (length (s # bs)) = (int (length xs) - i + m - 1) div m"
    proof (cases "i + m < int (length xs)")
      case True
      then have "int (length bs) = (int (length xs) - i - 1) div m"
        using len by (simp add: algebra_simps)
      moreover have "(int (length xs) - i + m - 1) div m = (int (length xs) - i - 1) div m + 1"
        using m div_add_self2 [of m "int (length xs) - i - 1"] by (simp add: algebra_simps)
      ultimately show ?thesis by simp
    next
      case False
      then have "length bs = 0" using len by simp
      moreover have "(int (length xs) - i + m - 1) div m = 1"
      proof -
        have "(int (length xs) - i - 1 + m) div m = (int (length xs) - i - 1) div m + 1"
          using m div_add_self2 [of m "int (length xs) - i - 1"] by simp
        moreover have "(int (length xs) - i - 1) div m = 0"
          using False True m by (intro div_pos_pos_trivial) simp_all
        ultimately show ?thesis by (simp add: algebra_simps)
      qed
      ultimately show ?thesis by simp
    qed
    show ?thesis
      using 1 2 3 4 True by (intro exI [of _ "s # bs"]) simp
  qed
qed


text \<open>
  Claim C6. When the column capacity \<open>maxTests = min(length, floor(remainingWidth / 70))\<close>
  is positive, the batch loop ends. Its batches concatenate to the ranked sequence; each is
  non-empty and has at most \<open>maxTests\<close>, hence at most \<open>floor(remainingWidth / 70)\<close>,
  columns; batch \<open>k\<close> is the slice that starts at index \<open>k \<sqdot> maxTests\<close>, so that its
  \<open>j\<close>-th column is the scenario at index \<open>k \<sqdot> maxTests + j\<close> (the slices are contiguous and
  disjoint); and there are \<open>ceil(length / maxTests)\<close> batches.
\<close>

theorem tableBatches_partition:
  assumes "0 < maxTestsOf (length ts) w"
  shows "\<exists>bs. tableBatches w ts = Some bs \<and>
     concat bs = ts \<and>
     (\<forall>b\<in>set bs. b \<noteq> [] \<and> int (length b) \<le> maxTestsOf (length ts) w \<and>
                  int (length b) \<le> \<lfloor>w / 70\<rfloor>) \<and>
     (\<forall>k<length bs.
        bs ! k = take (nat (maxTestsOf (length ts) w))
                   (drop (k * nat (maxTestsOf (length ts) w)) ts) \<and>
        (\<forall>j<length (bs ! k). bs ! k ! j = ts ! (k * nat (maxTestsOf (length ts) w) + j))) \<and>
     int (length bs) =
       (int (length ts) + maxTestsOf (length ts) w - 1) div maxTestsOf (length ts) w"
proof -
  define m where "m = maxTestsOf (length ts) w"
  have m: "0 < m" using assms by (simp add: m_def)
  have mw: "m \<le> \<lfloor>w / 70\<rfloor>" by (simp add: m_def maxTestsOf_def)
  from m have ne: "0 < int (length ts)" by (simp add: m_def maxTestsOf_def)
  from batchLoop_invariant [OF m, of 0 ts "[]"] obtain bs where
    run: "batchLoop m 0 ts [] = Some bs" and
    cat: "concat bs = ts" and
    nth: "\<forall>k<length bs. bs ! k = take (nat m) (drop (k * nat m) ts) \<and> k * nat m < length ts" and
    len: "int (length bs) = (int (length ts) + m - 1) div m"
    using ne by auto
  have sizes: "\<forall>b\<in>set bs. b \<noteq> [] \<and> int (length b) \<le> m \<and> int (length b) \<le> \<lfloor>w / 70\<rfloor>"
  proof
    fix b assume "b \<in> set bs"
    then obtain k where k: "k < length bs" and b: "b = bs ! k"
      by (auto simp: in_set_conv_nth)
    with nth have bk: "b = take (nat m) (drop (k * nat m) ts)" and lt: "k * nat m < length ts"
      by simp_all
    from bk lt m have "b \<noteq> []" by simp
    moreover from bk m have "int (length b) \<le> m" by simp
    ultimately show "b \<noteq> [] \<and> int (length b) \<le> m \<and> int (length b) \<le> \<lfloor>w / 70\<rfloor>"
      using mw by simp
  qed
  have elems: "\<forall>k<length bs. bs ! k = take (nat m) (drop (k * nat m) ts) \<and>
        (\<forall>j<length (bs ! k). bs ! k ! j = ts ! (k * nat m + j))"
  proof (intro allI impI conjI)
    fix k assume k: "k < length bs"
    with nth show bk: "bs ! k = take (nat m) (drop (k * nat m) ts)" by simp
    from k nth have lt: "k * nat m \<le> length ts" by (simp add: less_imp_le)
    fix j assume "j < length (bs ! k)"
    then show "bs ! k ! j = ts ! (k * nat m + j)"
      unfolding bk using lt by (simp add: nth_drop)
  qed
  show ?thesis
    unfolding tableBatches_def m_def [symmetric]
    using run cat sizes elems len by blast
qed

theorem tableBatches_partition_witness:
  "\<exists>bs. tableBatches a4_remainingWidth [1, 2, 3, 4, 5 :: nat] = Some bs \<and>
     bs = [[1, 2, 3, 4], [5]] \<and> concat bs = [1, 2, 3, 4, 5]"
proof -
  have mt: "maxTestsOf (length [1, 2, 3, 4, 5 :: nat]) a4_remainingWidth = 4"
    by (simp add: maxTestsOf_def a4_remainingWidth_def)
  then have pos: "0 < maxTestsOf (length [1, 2, 3, 4, 5 :: nat]) a4_remainingWidth"
    by simp
  from tableBatches_partition [OF pos] obtain bs where
    run: "tableBatches a4_remainingWidth [1, 2, 3, 4, 5 :: nat] = Some bs" and
    cat: "concat bs = [1, 2, 3, 4, 5]" and
    nth: "\<forall>k<length bs. bs ! k = take 4 (drop (k * 4) [1, 2, 3, 4, 5 :: nat])" and
    len: "length bs = 2"
    unfolding mt by auto
  from len obtain b0 b1 where bs: "bs = [b0, b1]"
    by (cases bs; cases "tl bs"; cases "tl (tl bs)") auto
  from nth have "bs ! 0 = [1, 2, 3, 4]" "bs ! 1 = [5]"
    using len by (simp_all)
  with bs have "bs = [[1, 2, 3, 4], [5]]" by simp
  with run cat show ?thesis by blast
qed

text \<open>On the A4 page of the report four columns fit, so the capacity is positive.\<close>

lemma tableBatches_a4:
  "2 \<le> length ts \<Longrightarrow> 0 < maxTestsOf (length ts) a4_remainingWidth"
  by (auto simp: maxTestsOf_def a4_remainingWidth_def)

lemma generateComparisonReport_batches:
  assumes "2 \<le> length ts"
  shows "\<exists>rep bs. snd (generateComparisonReport ts) = Some rep \<and> batches rep = Some bs \<and>
     concat bs = fst (generateComparisonReport ts)"
proof -
  define ranked where "ranked = Array_sort compareLatency ts"
  have "length ranked = length ts"
    by (simp add: ranked_def Array_sort_compareLatency)
  with assms have "0 < maxTestsOf (length ranked) a4_remainingWidth"
    by (simp add: tableBatches_a4)
  from batchLoop_invariant [OF this, of 0 ranked "[]"] obtain bs where
    "tableBatches a4_remainingWidth ranked = Some bs" "concat bs = ranked"
    by (auto simp: tableBatches_def)
  with assms show ?thesis
    by (simp add: generateComparisonReport_def Let_def ranked_def)
qed

subsection \<open>Decimal keys: parseInt inverts the decimal text\<close>












subsection \<open>Timeline from the per-second samples\<close>









subsection \<open>Fallback timeline\<close>

lemma parseInt_named_keys: "parseInt ''average'' = None" "parseInt ''total'' = None"
  by (simp_all add: parseInt_def isWhiteSpace_def isRadixDigit_def digitValue_def)

lemma sampledTimeline_empty:
  assumes "requestsTimeline r = None \<or> requestsTimeline r = Some []"
    and "filter (\<lambda>key. parseInt key \<noteq> None) (Object_keys (requests_other r)) = []"
  shows "sampledTimeline r = \<lparr>timeLabels = [], timelineData = []\<rparr>"
proof -
  have "standardTimeline r = \<lparr>timeLabels = [], timelineData = []\<rparr>"
    using assms(2)
    by (simp add: standardTimeline_def requests_object_def Object_keys_def parseInt_named_keys
        Array_sort_def)
  with assms(1) show ?thesis
    by (auto simp: sampledTimeline_def Object_keys_def)
qed

text \<open>
  With no samples and a result that carries a positive whole \<^verbatim>\<open>duration\<close>, the fallback
  emits that many entries, each the average, labelled \<open>1s\<close> to \<open>duration s\<close>.
\<close>

lemma fallback_with_duration:
  assumes "requestsTimeline r = None \<or> requestsTimeline r = Some []"
    and "filter (\<lambda>key. parseInt key \<noteq> None) (Object_keys (requests_other r)) = []"
    and "duration r = Some (of_nat n)" and "0 < n"
  shows "\<exists>t. reconstructTimeline r = Inr t \<and>
     length (timelineData t) = n \<and> length (timeLabels t) = n \<and>
     (\<forall>i<n. timelineData t ! i = Some (requests_average r) \<and>
            timeLabels t ! i = show_nat (Suc i) @ ''s'')"
proof -
  have d: "fallbackDuration r = Inr (of_nat n)"
    using assms(3,4) by (simp add: fallbackDuration_def)
  have run: "reconstructTimeline r = Inr (fallbackTimeline r (of_nat n))"
    by (simp add: reconstructTimeline_def sampledTimeline_empty [OF assms(1,2)] d)
  have len: "length [1..int n] = n" by simp
  have nth: "\<forall>i<n. [1..int n] ! i = 1 + int i" by simp
  show ?thesis
    using len nth
    by (intro exI [of _ "fallbackTimeline r (of_nat n)"])
      (simp add: run fallbackTimeline_def nat_add_distrib)
qed

text \<open>
  Claim C2 at a result with no per-second object, no numeric key under
  \<^verbatim>\<open>requests\<close>, and no \<^verbatim>\<open>duration\<close> (or a \<^verbatim>\<open>duration\<close> of 0): the fallback does not
  reach the configuration's duration or the default 30, because reading \<^verbatim>\<open>config\<close>
  raises a ReferenceError. With a \<^verbatim>\<open>duration\<close> of 3 in the result the same input gives the
  three entries of the claim.
\<close>

theorem fallback_without_duration_throws:
  "reconstructTimeline (plain_result 10 500) = Inl ReferenceError \<and>
   reconstructTimeline (plain_result 10 500\<lparr>duration := Some 0\<rparr>) = Inl ReferenceError \<and>
   (\<exists>t. reconstructTimeline (plain_result 10 500\<lparr>duration := Some 3\<rparr>) = Inr t \<and>
      timeLabels t = [''1s'', ''2s'', ''3s''] \<and> timelineData t = [Some 500, Some 500, Some 500])"
  by (simp add: reconstructTimeline_def sampledTimeline_def standardTimeline_def
      requests_object_def Object_keys_def parseInt_named_keys Array_sort_def
      fallbackDuration_def fallbackTimeline_def plain_result_def upto.simps
      show_nat.simps digit_char_def)

subsection \<open>Status codes\<close>

text \<open>
  Missing statistics suppress the pie chart and the section; non-empty statistics give a
  pie chart whose categories are the codes in enumeration order with their counts.
\<close>

lemma statusCodes_missing:
  "statusCodeStats r = None \<Longrightarrow>
     statusCodesChart r = None \<and> summaryImages r = [LatencyImage, RequestsImage] \<and>
     ''Status Codes:'' \<notin> set (errorsSection r)"
  by (simp add: statusCodesChart_def summaryImages_def errorsSection_def)

lemma statusCodes_nonempty:
  "statusCodeStats r = Some stats \<Longrightarrow> stats \<noteq> [] \<Longrightarrow>
     statusCodesChart r = Some \<lparr>pie_labels = map fst stats, pie_data = map snd stats\<rparr> \<and>
     summaryImages r =
       [LatencyImage, RequestsImage,
        StatusCodesImage \<lparr>pie_labels = map fst stats, pie_data = map snd stats\<rparr>]"
  by (simp add: statusCodesChart_def summaryImages_def Object_keys_def Object_values_def)

text \<open>
  Claim C7 at a result whose status-code statistics are the empty object: no pie chart is
  built and none is placed, but the detailed section still prints its heading
  \<open>Status Codes:\<close>, because \<^verbatim>\<open>generatePDF\<close> tests only that the object is truthy.
\<close>

theorem empty_status_codes_section_printed:
  "statusCodesChart (plain_result 10 500\<lparr>statusCodeStats := Some []\<rparr>) = None \<and>
   summaryImages (plain_result 10 500\<lparr>statusCodeStats := Some []\<rparr>)
     = [LatencyImage, RequestsImage] \<and>
   errorsSection (plain_result 10 500\<lparr>statusCodeStats := Some []\<rparr>)
     = [''Errors and Status Codes:'', ''Errors: 0'', ''Status Codes:'']"
  by (simp add: statusCodesChart_def summaryImages_def errorsSection_def Object_keys_def
      plain_result_def show_nat.simps digit_char_def)

end
